theory Spec2Isabelle
  imports Complex_Main
begin

section \<open>The PayOS UCP settlement client (settlement.py)\<close>

subsection \<open>Values\<close>

text \<open>
  The client builds and receives JSON. Python's dict keeps insertion order, so an
  object is an association list; numbers are never inspected by the client (amounts
  are passed through), so their type is a parameter.
\<close>

datatype 'n json =
    JNull
  | JBool bool
  | JNum 'n
  | JStr string
  | JArr "'n json list"
  | JObj "(string \<times> 'n json) list"

type_synonym 'n dict = "(string \<times> 'n json) list"

text \<open>\<^verbatim>\<open>d[k] = v\<close>: an existing key keeps its place, a new key goes last.\<close>

fun dict_set :: "string \<Rightarrow> 'v \<Rightarrow> (string \<times> 'v) list \<Rightarrow> (string \<times> 'v) list" where
  "dict_set k v [] = [(k, v)]"
| "dict_set k v (p # ps) = (if fst p = k then (k, v) # ps else p # dict_set k v ps)"

text \<open>\<^verbatim>\<open>d.get(k)\<close>: the value, or None when the key is missing.\<close>

definition dict_get :: "(string \<times> 'v) list \<Rightarrow> string \<Rightarrow> 'v option" where
  "dict_get d k = map_of d k"

text \<open>
  Truthiness of an \<^verbatim>\<open>Optional[str]\<close> and of an \<^verbatim>\<open>Optional[Dict]\<close>, as
  \<^verbatim>\<open>if x:\<close> tests it: None is false, and so is the empty string or the empty dict.
\<close>

fun truthy :: "'a list option \<Rightarrow> bool" where
  "truthy None = False"
| "truthy (Some xs) = (xs \<noteq> [])"

subsection \<open>Recipient constructors\<close>

definition create_pix_recipient ::
  "string \<Rightarrow> string \<Rightarrow> string \<Rightarrow> string option \<Rightarrow> 'n dict" where
  "create_pix_recipient pix_key pix_key_type name tax_id =
     (let recipient =
        [(''type'', JStr ''pix''),
         (''pix_key'', JStr pix_key),
         (''pix_key_type'', JStr pix_key_type),
         (''name'', JStr name)]
      in if truthy tax_id then dict_set ''tax_id'' (JStr (the tax_id)) recipient
         else recipient)"

definition create_spei_recipient :: "string \<Rightarrow> string \<Rightarrow> string option \<Rightarrow> 'n dict" where
  "create_spei_recipient clabe name rfc =
     (let recipient =
        [(''type'', JStr ''spei''),
         (''clabe'', JStr clabe),
         (''name'', JStr name)]
      in if truthy rfc then dict_set ''rfc'' (JStr (the rfc)) recipient
         else recipient)"

subsection \<open>The HTTP library and the clock\<close>

text \<open>
  The client talks to the \<^verbatim>\<open>requests\<close> library and to \<^verbatim>\<open>time\<close>. Both are outside
  the repository; the model keeps what the client can observe of them. A request is
  logged as sent; the remote side is a script of replies, each with the time it
  takes and either a transport failure or a response. A response has its status code
  and its body as \<^verbatim>\<open>response.json()\<close> parses it (None: the body is not JSON).
\<close>

datatype http_verb = GET | POST

record 'n request =
  verb :: http_verb
  url :: string
  req_headers :: "(string \<times> string) list"
  json_arg :: "'n dict option"

record 'n response =
  status_code :: int
  body :: "'n json option"

datatype 'n error =
    ConnectionError string
  | HTTPError "'n response"
  | JSONDecodeError
  | KeyError string
  | TypeError
  | Exception string

record client =
  api_key :: string
  base_url :: string
  headers :: "(string \<times> string) list"

record 'n state =
  self :: client
  clock :: real
  replies :: "(real \<times> (string + 'n response)) list"
  sent :: "'n request list"
  slept :: "real list"

text \<open>\<^verbatim>\<open>time.time()\<close> reads the clock; \<^verbatim>\<open>time.sleep(d)\<close> lets \<open>d\<close> seconds pass.\<close>

definition time_time :: "'n state \<Rightarrow> real" where
  "time_time s = clock s"

definition time_sleep :: "real \<Rightarrow> 'n state \<Rightarrow> 'n state" where
  "time_sleep d s = s\<lparr>clock := clock s + d, slept := slept s @ [d]\<rparr>"

text \<open>
  One request: it is sent once, and the next scripted reply answers it. With no reply
  left the remote side cannot be reached, which \<^verbatim>\<open>requests\<close> reports as a
  ConnectionError.
\<close>

definition requests_request ::
  "'n request \<Rightarrow> 'n state \<Rightarrow> ('n error + 'n response) \<times> 'n state" where
  "requests_request rq s =
     (case replies s of
        [] \<Rightarrow> (Inl (ConnectionError ''unreachable''), s\<lparr>sent := sent s @ [rq]\<rparr>)
      | (latency, outcome) # rest \<Rightarrow>
          ((case outcome of Inl msg \<Rightarrow> Inl (ConnectionError msg) | Inr r \<Rightarrow> Inr r),
           s\<lparr>clock := clock s + latency, replies := rest, sent := sent s @ [rq]\<rparr>))"

definition requests_post ::
  "string \<Rightarrow> (string \<times> string) list \<Rightarrow> 'n dict \<Rightarrow> 'n state
     \<Rightarrow> ('n error + 'n response) \<times> 'n state" where
  "requests_post u hs payload s =
     requests_request \<lparr>verb = POST, url = u, req_headers = hs, json_arg = Some payload\<rparr> s"

definition requests_get ::
  "string \<Rightarrow> (string \<times> string) list \<Rightarrow> 'n state \<Rightarrow> ('n error + 'n response) \<times> 'n state" where
  "requests_get u hs s =
     requests_request \<lparr>verb = GET, url = u, req_headers = hs, json_arg = None\<rparr> s"

text \<open>
  \<^verbatim>\<open>response.raise_for_status()\<close> of \<^verbatim>\<open>requests\<close>: it raises HTTPError for a client
  error (400 to 499) or a server error (500 to 599) status, and returns otherwise.
\<close>

definition raise_for_status :: "'n response \<Rightarrow> 'n error + unit" where
  "raise_for_status r =
     (if 400 \<le> status_code r \<and> status_code r < 600 then Inl (HTTPError r) else Inr ())"

definition response_json :: "'n response \<Rightarrow> 'n error + 'n json" where
  "response_json r = (case body r of None \<Rightarrow> Inl JSONDecodeError | Some j \<Rightarrow> Inr j)"

text \<open>
  \<^verbatim>\<open>x[k]\<close> with a string key on a parsed JSON value: a dict gives the value or raises
  KeyError; nothing else in JSON takes a string subscript (TypeError).
\<close>

fun py_getitem :: "'n json \<Rightarrow> string \<Rightarrow> 'n error + 'n json" where
  "py_getitem (JObj d) k = (case map_of d k of None \<Rightarrow> Inl (KeyError k) | Some v \<Rightarrow> Inr v)"
| "py_getitem _ k = Inl TypeError"

text \<open>\<^verbatim>\<open>x.get(k)\<close> on a value that is a dict.\<close>

fun py_get :: "'n json \<Rightarrow> string \<Rightarrow> 'n json option" where
  "py_get (JObj d) k = dict_get d k"
| "py_get _ k = None"

text \<open>
  The text an f-string puts for a value: a string as it is, None (a missing key, or
  JSON null) as \<^verbatim>\<open>None\<close>, a boolean as \<^verbatim>\<open>True\<close> or \<^verbatim>\<open>False\<close>. How Python prints
  numbers, lists and dicts is left as the parameter \<open>py_str\<close>.
\<close>

fun py_format :: "('n json \<Rightarrow> string) \<Rightarrow> 'n json option \<Rightarrow> string" where
  "py_format py_str None = ''None''"
| "py_format py_str (Some JNull) = ''None''"
| "py_format py_str (Some (JBool b)) = (if b then ''True'' else ''False'')"
| "py_format py_str (Some (JStr t)) = t"
| "py_format py_str (Some v) = py_str v"

subsection \<open>PayOSUCPClient\<close>

definition PayOSUCPClient :: "string \<Rightarrow> string \<Rightarrow> client" where
  "PayOSUCPClient key base =
     \<lparr>api_key = key,
      base_url = base,
      headers =
        [(''Authorization'', ''Bearer '' @ key),
         (''Content-Type'', ''application/json''),
         (''UCP-Agent'', ''PythonExample/2026-01-11'')]\<rparr>"

definition get_quote ::
  "string \<Rightarrow> 'n \<Rightarrow> string \<Rightarrow> 'n state \<Rightarrow> ('n error + 'n json) \<times> 'n state" where
  "get_quote corridor amount currency s =
     (case requests_post (base_url (self s) @ ''/v1/ucp/quote'') (headers (self s))
             [(''corridor'', JStr corridor), (''amount'', JNum amount),
              (''currency'', JStr currency)] s of
        (Inl e, s') \<Rightarrow> (Inl e, s')
      | (Inr response, s') \<Rightarrow>
          (case raise_for_status response of
             Inl e \<Rightarrow> (Inl e, s')
           | Inr _ \<Rightarrow> (response_json response, s')))"

definition acquire_token ::
  "string \<Rightarrow> 'n \<Rightarrow> string \<Rightarrow> 'n dict \<Rightarrow> 'n dict option \<Rightarrow> 'n state
     \<Rightarrow> ('n error + 'n json) \<times> 'n state" where
  "acquire_token corridor amount currency recipient metadata s =
     (let payload0 =
            [(''corridor'', JStr corridor), (''amount'', JNum amount),
             (''currency'', JStr currency), (''recipient'', JObj recipient)];
          payload =
            (if truthy metadata then dict_set ''metadata'' (JObj (the metadata)) payload0
             else payload0)
      in case requests_post (base_url (self s) @ ''/v1/ucp/tokens'') (headers (self s)) payload s of
           (Inl e, s') \<Rightarrow> (Inl e, s')
         | (Inr response, s') \<Rightarrow>
             (case raise_for_status response of
                Inl e \<Rightarrow> (Inl e, s')
              | Inr _ \<Rightarrow> (response_json response, s')))"

definition settle ::
  "string \<Rightarrow> string option \<Rightarrow> 'n state \<Rightarrow> ('n error + 'n json) \<times> 'n state" where
  "settle token idempotency_key s =
     (let payload0 = [(''token'', JStr token)];
          payload =
            (if truthy idempotency_key
             then dict_set ''idempotency_key'' (JStr (the idempotency_key)) payload0
             else payload0)
      in case requests_post (base_url (self s) @ ''/v1/ucp/settle'') (headers (self s)) payload s of
           (Inl e, s') \<Rightarrow> (Inl e, s')
         | (Inr response, s') \<Rightarrow>
             (case raise_for_status response of
                Inl e \<Rightarrow> (Inl e, s')
              | Inr _ \<Rightarrow> (response_json response, s')))"

definition get_settlement_status ::
  "string \<Rightarrow> 'n state \<Rightarrow> ('n error + 'n json) \<times> 'n state" where
  "get_settlement_status settlement_id s =
     (case requests_get (base_url (self s) @ ''/v1/ucp/settlements/'' @ settlement_id)
             (headers (self s)) s of
        (Inl e, s') \<Rightarrow> (Inl e, s')
      | (Inr response, s') \<Rightarrow>
          (case raise_for_status response of
             Inl e \<Rightarrow> (Inl e, s')
           | Inr _ \<Rightarrow> (response_json response, s')))"

text \<open>
  The polling loop of \<^verbatim>\<open>wait_for_completion\<close>. Every turn that goes on has taken a
  reply off the script, which is what ends the recursion.
\<close>

function wait_loop ::
  "('n json \<Rightarrow> string) \<Rightarrow> string \<Rightarrow> real \<Rightarrow> int \<Rightarrow> 'n state
     \<Rightarrow> ('n error + 'n json) \<times> 'n state" where
  "wait_loop py_str settlement_id start_time max_wait_seconds s =
     (if time_time s - start_time < real_of_int max_wait_seconds then
        (case get_settlement_status settlement_id s of
           (Inl e, s') \<Rightarrow> (Inl e, s')
         | (Inr status, s') \<Rightarrow>
             (case py_getitem status ''status'' of
                Inl e \<Rightarrow> (Inl e, s')
              | Inr v \<Rightarrow>
                  if v = JStr ''completed'' then (Inr status, s')
                  else if v = JStr ''failed'' then
                    (Inl (Exception (''Settlement failed: ''
                            @ py_format py_str (py_get status ''failure_reason''))), s')
                  else wait_loop py_str settlement_id start_time max_wait_seconds
                         (time_sleep 2 s')))
      else (Inl (Exception ''Settlement timed out''), s))"
  by pat_completeness auto
termination
  by (relation "measure (\<lambda>(py_str, settlement_id, start_time, max_wait_seconds, s).
                    length (replies s))")
     (auto simp: time_sleep_def get_settlement_status_def requests_get_def
        requests_request_def split: list.splits sum.splits prod.splits)

declare wait_loop.simps [simp del]

definition wait_for_completion ::
  "('n json \<Rightarrow> string) \<Rightarrow> string \<Rightarrow> int \<Rightarrow> 'n state \<Rightarrow> ('n error + 'n json) \<times> 'n state" where
  "wait_for_completion py_str settlement_id max_wait_seconds s =
     (let start_time = time_time s
      in wait_loop py_str settlement_id start_time max_wait_seconds s)"

subsection \<open>Vocabulary of the properties\<close>

text \<open>The request that \<open>get_settlement_status\<close> sends.\<close>

definition status_request :: "client \<Rightarrow> string \<Rightarrow> 'n request" where
  "status_request c settlement_id =
     \<lparr>verb = GET, url = base_url c @ ''/v1/ucp/settlements/'' @ settlement_id,
      req_headers = headers c, json_arg = None\<rparr>"

text \<open>The statuses on which \<open>raise_for_status\<close> raises.\<close>

definition error_status :: "'n response \<Rightarrow> bool" where
  "error_status r = (400 \<le> status_code r \<and> status_code r < 600)"

text \<open>
  A scripted reply on which the polling loop goes on: it takes no negative time, it is a
  response that \<open>raise_for_status\<close> accepts, and its body is a record whose status is
  there and is neither \<^verbatim>\<open>completed\<close> nor \<^verbatim>\<open>failed\<close>.
\<close>

definition nonterminal_reply :: "real \<times> (string + 'n response) \<Rightarrow> bool" where
  "nonterminal_reply p =
     (0 \<le> fst p \<and>
      (case snd p of
         Inl _ \<Rightarrow> False
       | Inr r \<Rightarrow>
           \<not> error_status r \<and>
           (case body r of
              Some (JObj d) \<Rightarrow>
                (case dict_get d ''status'' of
                   Some v \<Rightarrow> v \<noteq> JStr ''completed'' \<and> v \<noteq> JStr ''failed''
                 | None \<Rightarrow> False)
            | _ \<Rightarrow> False)))"

fun is_http_error :: "'n error + 'a \<Rightarrow> bool" where
  "is_http_error (Inl (HTTPError _)) = True"
| "is_http_error _ = False"

text \<open>
  What one exchange means for an operation \<open>op\<close> run in state \<open>s\<close>, when the next
  scripted reply is \<open>out\<close> and \<open>rest\<close> follow it: a transport failure is raised as it
  is; a response with an error status is raised as HTTPError carrying that response, and
  HTTPError is raised in no other case; any other response gives what
  \<open>response_json\<close> gives; one reply is taken and one request is sent.
\<close>

definition exchanged ::
  "'n state \<Rightarrow> (string + 'n response) \<Rightarrow> (real \<times> (string + 'n response)) list
     \<Rightarrow> ('n state \<Rightarrow> ('n error + 'n json) \<times> 'n state) \<Rightarrow> bool" where
  "exchanged s out rest op =
     (fst (op s) =
        (case out of
           Inl msg \<Rightarrow> Inl (ConnectionError msg)
         | Inr r \<Rightarrow> if error_status r then Inl (HTTPError r) else response_json r)
      \<and> is_http_error (fst (op s)) = (case out of Inl _ \<Rightarrow> False | Inr r \<Rightarrow> error_status r)
      \<and> replies (snd (op s)) = rest
      \<and> length (sent (snd (op s))) = Suc (length (sent s)))"

text \<open>Fixtures: a client, a starting state with a script, replies and settlement records.\<close>

definition demo_client :: client where
  "demo_client = PayOSUCPClient ''pk_test'' ''https://api.payos.com''"

definition world :: "client \<Rightarrow> (real \<times> (string + 'n response)) list \<Rightarrow> 'n state" where
  "world c script = \<lparr>self = c, clock = 0, replies = script, sent = [], slept = []\<rparr>"

definition reply :: "real \<Rightarrow> int \<Rightarrow> 'n dict \<Rightarrow> real \<times> (string + 'n response)" where
  "reply latency code d = (latency, Inr \<lparr>status_code = code, body = Some (JObj d)\<rparr>)"

definition settlement :: "string \<Rightarrow> 'n dict \<Rightarrow> 'n dict" where
  "settlement st extra = [(''id'', JStr ''st_1''), (''status'', JStr st)] @ extra"

section \<open>Properties\<close>

subsection \<open>One exchange\<close>

lemma requests_request_reply:
  "replies s = (lat, out) # rest \<Longrightarrow>
     requests_request rq s =
       ((case out of Inl msg \<Rightarrow> Inl (ConnectionError msg) | Inr r \<Rightarrow> Inr r),
        s\<lparr>clock := clock s + lat, replies := rest, sent := sent s @ [rq]\<rparr>)"
  by (simp add: requests_request_def)

lemma requests_request_fst:
  "replies s = (lat, out) # rest \<Longrightarrow>
     fst (requests_request rq s) =
       (case out of Inl msg \<Rightarrow> Inl (ConnectionError msg) | Inr r \<Rightarrow> Inr r)"
  by (simp add: requests_request_def)

lemma requests_request_self: "self (snd (requests_request rq s)) = self s"
  by (simp add: requests_request_def split: list.splits prod.splits)

lemma requests_request_sent: "sent (snd (requests_request rq s)) = sent s @ [rq]"
  by (simp add: requests_request_def split: list.splits prod.splits)

lemma requests_request_replies: "replies (snd (requests_request rq s)) = tl (replies s)"
  by (simp add: requests_request_def split: list.splits prod.splits)

text \<open>
  The three lines every operation ends with (\<open>raise_for_status\<close>, then
  \<open>response.json()\<close>) change no state and turn the outcome of the request as follows.
\<close>

lemma checked_snd:
  "snd (case x of
          (Inl e, s') \<Rightarrow> (Inl e, s')
        | (Inr response, s') \<Rightarrow>
            (case raise_for_status response of
               Inl e \<Rightarrow> (Inl e, s')
             | Inr (_ :: unit) \<Rightarrow> (response_json response, s'))) = snd x"
  by (auto split: prod.splits sum.splits)

lemma checked_fst:
  "fst (case x of
          (Inl e, s') \<Rightarrow> (Inl e, s')
        | (Inr response, s') \<Rightarrow>
            (case raise_for_status response of
               Inl e \<Rightarrow> (Inl e, s')
             | Inr (_ :: unit) \<Rightarrow> (response_json response, s'))) =
     (case fst x of
        Inl e \<Rightarrow> Inl e
      | Inr r \<Rightarrow> if error_status r then Inl (HTTPError r) else response_json r)"
  by (auto simp: raise_for_status_def error_status_def split: prod.splits sum.splits)

lemma response_json_not_http: "\<not> is_http_error (response_json r)"
  by (simp add: response_json_def split: option.splits)

lemma exchangedI:
  assumes "replies s = (lat, out) # rest"
      and "fst (op s) = (case fst (requests_request rq s) of
              Inl e \<Rightarrow> Inl e
            | Inr r \<Rightarrow> if error_status r then Inl (HTTPError r) else response_json r)"
      and "snd (op s) = snd (requests_request rq s)"
  shows "exchanged s out rest op"
  unfolding exchanged_def
  using assms
  by (cases out)
     (auto simp: requests_request_fst requests_request_replies requests_request_sent
        response_json_not_http)

lemma poll_ok:
  assumes "replies s = (lat, Inr r) # rest" and "\<not> error_status r" and "body r = Some j"
  shows "get_settlement_status sid s =
           (Inr j, s\<lparr>clock := clock s + lat, replies := rest,
                     sent := sent s @ [status_request (self s) sid]\<rparr>)"
  using assms
  by (simp add: get_settlement_status_def requests_get_def requests_request_reply
        raise_for_status_def response_json_def status_request_def error_status_def)

lemma get_settlement_status_self: "self (snd (get_settlement_status sid s)) = self s"
  by (simp add: get_settlement_status_def checked_snd requests_get_def requests_request_self)

subsection \<open>The polling loop, one turn at a time\<close>

lemma wait_loop_step:
  assumes "time_time s - start < real_of_int max_wait"
      and "replies s = (lat, Inr r) # rest" and "\<not> error_status r"
      and "body r = Some (JObj d)" and "dict_get d ''status'' = Some v"
  shows "wait_loop py_str sid start max_wait s =
           (let s' = s\<lparr>clock := clock s + lat, replies := rest,
                        sent := sent s @ [status_request (self s) sid]\<rparr>
            in if v = JStr ''completed'' then (Inr (JObj d), s')
               else if v = JStr ''failed'' then
                 (Inl (Exception (''Settlement failed: ''
                         @ py_format py_str (dict_get d ''failure_reason''))), s')
               else wait_loop py_str sid start max_wait (time_sleep 2 s'))"
  using assms(1,5)
  by (subst wait_loop.simps) (simp add: poll_ok [OF assms(2,3,4)] dict_get_def Let_def)

lemma wait_loop_deadline:
  "\<not> time_time s - start < real_of_int max_wait \<Longrightarrow>
     wait_loop py_str sid start max_wait s = (Inl (Exception ''Settlement timed out''), s)"
  by (subst wait_loop.simps) simp

lemma nonterminal_replyE:
  assumes "nonterminal_reply (lat, out)"
  obtains r d v where "out = Inr r" "0 \<le> lat" "\<not> error_status r" "body r = Some (JObj d)"
    "dict_get d ''status'' = Some v" "v \<noteq> JStr ''completed''" "v \<noteq> JStr ''failed''"
  using assms
  by (auto simp: nonterminal_reply_def split: sum.splits option.splits json.splits)

lemma sum_lat_nonneg: "list_all nonterminal_reply pre \<Longrightarrow> 0 \<le> sum_list (map fst pre)"
  by (induction pre) (auto simp: nonterminal_reply_def)

text \<open>
  Replies on which the loop goes on, as many as fill the time to the deadline at two
  seconds a turn, end in the timeout, whatever follows them in the script.
\<close>

lemma wait_loop_times_out:
  assumes "list_all nonterminal_reply pre" and "replies s = pre @ rest"
      and "real_of_int max_wait \<le> clock s - start + 2 * real (length pre)"
  shows "fst (wait_loop py_str sid start max_wait s) = Inl (Exception ''Settlement timed out'')"
  using assms
proof (induction pre arbitrary: s)
  case Nil
  then show ?case by (simp add: wait_loop_deadline time_time_def)
next
  case (Cons p pre)
  show ?case
  proof (cases "time_time s - start < real_of_int max_wait")
    case False
    then show ?thesis by (simp add: wait_loop_deadline)
  next
    case True
    obtain lat out where p: "p = (lat, out)" by (cases p)
    from Cons.prems(1) p have "nonterminal_reply (lat, out)" by simp
    then obtain r d v where out: "out = Inr r" and lat: "0 \<le> lat" and ok: "\<not> error_status r"
      and b: "body r = Some (JObj d)" and st: "dict_get d ''status'' = Some v"
      and v: "v \<noteq> JStr ''completed''" "v \<noteq> JStr ''failed''"
      by (rule nonterminal_replyE)
    let ?s' = "s\<lparr>clock := clock s + lat, replies := pre @ rest,
                  sent := sent s @ [status_request (self s) sid]\<rparr>"
    from Cons.prems(2) p out have rs: "replies s = (lat, Inr r) # (pre @ rest)" by simp
    have step: "wait_loop py_str sid start max_wait s =
                wait_loop py_str sid start max_wait (time_sleep 2 ?s')"
      using wait_loop_step [OF True rs ok b st, of py_str sid] v by (simp add: Let_def)
    have "fst (wait_loop py_str sid start max_wait (time_sleep 2 ?s')) =
            Inl (Exception ''Settlement timed out'')"
    proof (rule Cons.IH)
      show "list_all nonterminal_reply pre" using Cons.prems(1) by simp
      show "replies (time_sleep 2 ?s') = pre @ rest" by (simp add: time_sleep_def)
      show "real_of_int max_wait \<le> clock (time_sleep 2 ?s') - start + 2 * real (length pre)"
        using Cons.prems(3) lat by (simp add: time_sleep_def)
    qed
    with step show ?thesis by simp
  qed
qed

text \<open>
  The same on the wall clock: replies on which the loop goes on, whose own time and
  sleeps of two seconds together reach the deadline, end in the timeout.
\<close>

lemma wait_loop_times_out_wall:
  assumes "list_all nonterminal_reply pre" and "replies s = pre @ rest"
      and "real_of_int max_wait
             \<le> clock s - start + sum_list (map fst pre) + 2 * real (length pre)"
  shows "fst (wait_loop py_str sid start max_wait s) = Inl (Exception ''Settlement timed out'')"
  using assms
proof (induction pre arbitrary: s)
  case Nil
  then show ?case by (simp add: wait_loop_deadline time_time_def)
next
  case (Cons p pre)
  show ?case
  proof (cases "time_time s - start < real_of_int max_wait")
    case False
    then show ?thesis by (simp add: wait_loop_deadline)
  next
    case True
    obtain lat out where p: "p = (lat, out)" by (cases p)
    from Cons.prems(1) p have "nonterminal_reply (lat, out)" by simp
    then obtain r d v where out: "out = Inr r" and ok: "\<not> error_status r"
      and b: "body r = Some (JObj d)" and st: "dict_get d ''status'' = Some v"
      and v: "v \<noteq> JStr ''completed''" "v \<noteq> JStr ''failed''"
      by (rule nonterminal_replyE)
    let ?s' = "s\<lparr>clock := clock s + lat, replies := pre @ rest,
                  sent := sent s @ [status_request (self s) sid]\<rparr>"
    from Cons.prems(2) p out have rs: "replies s = (lat, Inr r) # (pre @ rest)" by simp
    have step: "wait_loop py_str sid start max_wait s =
                wait_loop py_str sid start max_wait (time_sleep 2 ?s')"
      using wait_loop_step [OF True rs ok b st, of py_str sid] v by (simp add: Let_def)
    have "fst (wait_loop py_str sid start max_wait (time_sleep 2 ?s')) =
            Inl (Exception ''Settlement timed out'')"
    proof (rule Cons.IH)
      show "list_all nonterminal_reply pre" using Cons.prems(1) by simp
      show "replies (time_sleep 2 ?s') = pre @ rest" by (simp add: time_sleep_def)
      show "real_of_int max_wait
              \<le> clock (time_sleep 2 ?s') - start + sum_list (map fst pre)
                  + 2 * real (length pre)"
        using Cons.prems(3) p by (simp add: time_sleep_def)
    qed
    with step show ?thesis by simp
  qed
qed

text \<open>
  Replies on which the loop goes on, all polled before the deadline, are passed over:
  each costs its own time and a sleep of two seconds, and leaves one request in the log.
\<close>

lemma wait_loop_skip:
  assumes "list_all nonterminal_reply pre" and "replies s = pre @ rest"
      and "clock s - start + sum_list (map fst pre) + 2 * real (length pre) < real_of_int max_wait"
  shows "wait_loop py_str sid start max_wait s =
           wait_loop py_str sid start max_wait
             (s\<lparr>clock := clock s + sum_list (map fst pre) + 2 * real (length pre),
                replies := rest,
                sent := sent s @ replicate (length pre) (status_request (self s) sid),
                slept := slept s @ replicate (length pre) 2\<rparr>)"
  using assms
proof (induction pre arbitrary: s)
  case Nil
  then have "rest = replies s" by simp
  then show ?case by simp
next
  case (Cons p pre)
  obtain lat out where p: "p = (lat, out)" by (cases p)
  from Cons.prems(1) p have "nonterminal_reply (lat, out)" by simp
  then obtain r d v where out: "out = Inr r" and lat: "0 \<le> lat" and ok: "\<not> error_status r"
    and b: "body r = Some (JObj d)" and st: "dict_get d ''status'' = Some v"
    and v: "v \<noteq> JStr ''completed''" "v \<noteq> JStr ''failed''"
    by (rule nonterminal_replyE)
  have pre: "list_all nonterminal_reply pre" using Cons.prems(1) by simp
  have nn: "0 \<le> sum_list (map fst pre)" by (rule sum_lat_nonneg [OF pre])
  let ?s' = "s\<lparr>clock := clock s + lat, replies := pre @ rest,
                sent := sent s @ [status_request (self s) sid]\<rparr>"
  let ?t = "time_sleep 2 ?s'"
  from Cons.prems(2) p out have rs: "replies s = (lat, Inr r) # (pre @ rest)" by simp
  have now: "time_time s - start < real_of_int max_wait"
    using Cons.prems(3) lat nn p by (simp add: time_time_def)
  have step: "wait_loop py_str sid start max_wait s = wait_loop py_str sid start max_wait ?t"
    using wait_loop_step [OF now rs ok b st, of py_str sid] v by (simp add: Let_def)
  have "wait_loop py_str sid start max_wait ?t =
          wait_loop py_str sid start max_wait
            (?t\<lparr>clock := clock ?t + sum_list (map fst pre) + 2 * real (length pre),
                replies := rest,
                sent := sent ?t @ replicate (length pre) (status_request (self ?t) sid),
                slept := slept ?t @ replicate (length pre) 2\<rparr>)"
  proof (rule Cons.IH [OF pre])
    show "replies ?t = pre @ rest" by (simp add: time_sleep_def)
    show "clock ?t - start + sum_list (map fst pre) + 2 * real (length pre)
            < real_of_int max_wait"
      using Cons.prems(3) p by (simp add: time_sleep_def)
  qed
  also have "?t\<lparr>clock := clock ?t + sum_list (map fst pre) + 2 * real (length pre),
                replies := rest,
                sent := sent ?t @ replicate (length pre) (status_request (self ?t) sid),
                slept := slept ?t @ replicate (length pre) 2\<rparr>
      = s\<lparr>clock := clock s + sum_list (map fst (p # pre)) + 2 * real (length (p # pre)),
                replies := rest,
                sent := sent s @ replicate (length (p # pre)) (status_request (self s) sid),
                slept := slept s @ replicate (length (p # pre)) 2\<rparr>"
    using p by (intro state.equality) (simp_all add: time_sleep_def)
  finally show ?case using step by simp
qed

lemma wait_loop_self: "self (snd (wait_loop py_str sid start mw s)) = self s"
proof (induction py_str sid start mw s rule: wait_loop.induct)
  case (1 py_str sid start mw s)
  obtain res s' where g: "get_settlement_status sid s = (res, s')"
    by (cases "get_settlement_status sid s")
  have s': "self s' = self s" using get_settlement_status_self [of sid s] g by simp
  show ?case
  proof (cases "time_time s - start < real_of_int mw")
    case False
    then show ?thesis by (subst wait_loop.simps) simp
  next
    case True
    note now = this
    show ?thesis
    proof (cases res)
      case (Inl e)
      with now g s' show ?thesis by (subst wait_loop.simps) simp
    next
      case (Inr status)
      note res = this
      show ?thesis
      proof (cases "py_getitem status ''status''")
        case (Inl e)
        with now g s' res show ?thesis by (subst wait_loop.simps) simp
      next
        case (Inr v)
        note v = this
        show ?thesis
        proof (cases "v = JStr ''completed'' \<or> v = JStr ''failed''")
          case True
          with now g s' res v show ?thesis by (subst wait_loop.simps) auto
        next
          case False
          have "self (snd (wait_loop py_str sid start mw (time_sleep 2 s'))) =
                  self (time_sleep 2 s')"
            using "1.IH" [OF now g [symmetric] res v] False by simp
          then have "self (snd (wait_loop py_str sid start mw (time_sleep 2 s'))) = self s"
            using s' by (simp add: time_sleep_def)
          with now g res v False show ?thesis by (subst wait_loop.simps) auto
        qed
      qed
    qed
  qed
qed

subsection \<open>Waiting for completion\<close>

text \<open>
  C1, as stated, at an explicit input: with 120 seconds to wait, the one poll is started
  at once and answered after 200 seconds with a completed record. No poll has returned
  \<^verbatim>\<open>completed\<close> or \<^verbatim>\<open>failed\<close> before the deadline elapsed, yet
  \<open>wait_for_completion\<close> raises no timeout: it returns the record, at 200 seconds.
\<close>

theorem wait_for_completion_late_completed:
  "wait_for_completion (\<lambda>_. ''?'') ''st_1'' 120
     (world demo_client [reply 200 200 (settlement ''completed'' [])] :: real state) =
   (Inr (JObj (settlement ''completed'' [])),
    \<lparr>self = demo_client, clock = 200, replies = [],
     sent = [status_request demo_client ''st_1''], slept = []\<rparr>)
   \<and> \<not> (200 :: real) < real_of_int 120"
proof -
  have "wait_loop (\<lambda>_. ''?'') ''st_1'' 0 120
          (world demo_client [reply 200 200 (settlement ''completed'' [])] :: real state) =
        (Inr (JObj (settlement ''completed'' [])),
         \<lparr>self = demo_client, clock = 200, replies = [],
          sent = [status_request demo_client ''st_1''], slept = []\<rparr>)"
    by (subst wait_loop_step
          [where lat = 200 and rest = "[]" and d = "settlement ''completed'' []"
             and v = "JStr ''completed''"
             and r = "\<lparr>status_code = 200, body = Some (JObj (settlement ''completed'' []))\<rparr>"])
       (simp_all add: world_def reply_def settlement_def error_status_def dict_get_def
          time_time_def Let_def)
  then show ?thesis by (simp add: wait_for_completion_def time_time_def world_def)
qed

text \<open>
  C1, amended: the deadline is tested before each poll and not while one is under way.
  When every poll started before the deadline returns a status other than
  \<^verbatim>\<open>completed\<close> and \<^verbatim>\<open>failed\<close>, \<open>wait_for_completion\<close> raises the timeout
  error and returns no record. The polls started before the deadline are within a
  prefix \<open>pre\<close> of the script: each is a record with such a status, and the time they
  take on the wall clock, their own and two seconds of sleep after each, reaches
  \<open>max_wait_seconds\<close>. What the script holds after them is never asked for.
\<close>

theorem wait_for_completion_times_out:
  assumes "replies s = pre @ rest" and "list_all nonterminal_reply pre"
      and "real_of_int max_wait_seconds \<le> sum_list (map fst pre) + 2 * real (length pre)"
  shows "fst (wait_for_completion py_str settlement_id max_wait_seconds s) =
           Inl (Exception ''Settlement timed out'')"
  unfolding wait_for_completion_def Let_def
  by (rule wait_loop_times_out_wall [OF assms(2,1)])
     (use assms(3) in \<open>simp add: time_time_def\<close>)

text \<open>
  A run of C1: with 120 seconds to wait, one pending record that takes 200 seconds to
  arrive uses up the time, and the completed record that would come next is not asked
  for.
\<close>

theorem wait_for_completion_times_out_witness:
  "fst (wait_for_completion (\<lambda>_. ''?'') ''st_1'' 120
         (world demo_client
            [reply 200 200 (settlement ''pending'' []),
             reply (1/2) 200 (settlement ''completed'' [])] :: real state)) =
     Inl (Exception ''Settlement timed out'')"
proof -
  have pre: "list_all nonterminal_reply
               [reply 200 200 (settlement ''pending'' []) :: real \<times> (string + real response)]"
    by (simp add: nonterminal_reply_def reply_def settlement_def error_status_def dict_get_def)
  show ?thesis
    by (rule wait_for_completion_times_out
          [where rest = "[reply (1/2) 200 (settlement ''completed'' [])]", OF _ pre])
       (simp_all add: world_def reply_def)
qed

text \<open>
  C2: against the statuses pending, pending, completed, each poll made before the
  deadline, \<open>wait_for_completion\<close> returns the completed record at the third poll, after
  exactly two sleeps of two seconds.
\<close>

theorem wait_for_completion_pending_pending_completed:
  fixes s :: "'n state"
  assumes "replies s = (l1, Inr r1) # (l2, Inr r2) # (l3, Inr r3) # rest"
      and "0 \<le> l1" and "0 \<le> l2" and "l1 + 2 + l2 + 2 < real_of_int max_wait_seconds"
      and "\<not> error_status r1" and "body r1 = Some (JObj d1)"
      and "dict_get d1 ''status'' = Some (JStr ''pending'')"
      and "\<not> error_status r2" and "body r2 = Some (JObj d2)"
      and "dict_get d2 ''status'' = Some (JStr ''pending'')"
      and "\<not> error_status r3" and "body r3 = Some (JObj d3)"
      and "dict_get d3 ''status'' = Some (JStr ''completed'')"
  shows "wait_for_completion py_str settlement_id max_wait_seconds s =
           (Inr (JObj d3),
            s\<lparr>clock := clock s + l1 + 2 + l2 + 2 + l3,
              replies := rest,
              sent := sent s @ replicate 3 (status_request (self s) settlement_id),
              slept := slept s @ [2, 2]\<rparr>)"
proof -
  let ?pre = "[(l1, Inr r1), (l2, Inr r2)] :: (real \<times> (string + 'n response)) list"
  let ?s = "s\<lparr>clock := clock s + sum_list (map fst ?pre) + 2 * real (length ?pre),
                replies := (l3, Inr r3) # rest,
                sent := sent s @ replicate (length ?pre) (status_request (self s) settlement_id),
                slept := slept s @ replicate (length ?pre) 2\<rparr>"
  have pre: "list_all nonterminal_reply ?pre"
    using assms(2,3,5-10) by (simp add: nonterminal_reply_def)
  have "wait_loop py_str settlement_id (clock s) max_wait_seconds s =
          wait_loop py_str settlement_id (clock s) max_wait_seconds ?s"
    by (rule wait_loop_skip [OF pre]) (use assms(1,4) in simp_all)
  moreover have "wait_loop py_str settlement_id (clock s) max_wait_seconds ?s =
      (Inr (JObj d3),
            s\<lparr>clock := clock s + l1 + 2 + l2 + 2 + l3,
              replies := rest,
              sent := sent s @ replicate 3 (status_request (self s) settlement_id),
              slept := slept s @ [2, 2]\<rparr>)"
  proof -
    have now: "time_time ?s - clock s < real_of_int max_wait_seconds"
      using assms(4) by (simp add: time_time_def)
    have "?s\<lparr>clock := clock ?s + l3, replies := rest,
              sent := sent ?s @ [status_request (self ?s) settlement_id]\<rparr> =
          s\<lparr>clock := clock s + l1 + 2 + l2 + 2 + l3,
              replies := rest,
              sent := sent s @ replicate 3 (status_request (self s) settlement_id),
              slept := slept s @ [2, 2]\<rparr>"
      by (rule state.equality) (simp_all add: numeral_3_eq_3)
    then show ?thesis
      using wait_loop_step [OF now _ assms(11,12,13), of l3 rest py_str settlement_id]
      by (simp add: Let_def)
  qed
  ultimately show ?thesis by (simp add: wait_for_completion_def time_time_def)
qed

text \<open>
  A run of C2: polls of half a second and the default 120 seconds to wait. The completed
  record comes back after three requests and two sleeps, five and a half seconds in.
\<close>

theorem wait_for_completion_pending_pending_completed_witness:
  "wait_for_completion (\<lambda>_. ''?'') ''st_1'' 120
     (world demo_client
        [reply (1/2) 200 (settlement ''pending'' []),
         reply (1/2) 200 (settlement ''pending'' []),
         reply (1/2) 200 (settlement ''completed'' [(''transfer_id'', JStr ''tr_9'')])]
      :: real state) =
   (Inr (JObj [(''id'', JStr ''st_1''), (''status'', JStr ''completed''),
               (''transfer_id'', JStr ''tr_9'')]),
    \<lparr>self = demo_client, clock = 11/2, replies = [],
     sent = replicate 3 (status_request demo_client ''st_1''),
     slept = [2, 2]\<rparr>)"
  using wait_for_completion_pending_pending_completed
    [where s = "world demo_client
        [reply (1/2) 200 (settlement ''pending'' []),
         reply (1/2) 200 (settlement ''pending'' []),
         reply (1/2) 200 (settlement ''completed'' [(''transfer_id'', JStr ''tr_9'')])]
        :: real state"
      and ?l1.0 = "1/2" and ?l2.0 = "1/2" and ?l3.0 = "1/2" and rest = "[]"
      and ?r1.0 = "\<lparr>status_code = 200, body = Some (JObj (settlement ''pending'' []))\<rparr>"
      and ?r2.0 = "\<lparr>status_code = 200, body = Some (JObj (settlement ''pending'' []))\<rparr>"
      and ?r3.0 = "\<lparr>status_code = 200,
                    body = Some (JObj (settlement ''completed''
                                          [(''transfer_id'', JStr ''tr_9'')]))\<rparr>"
      and ?d1.0 = "settlement ''pending'' []" and ?d2.0 = "settlement ''pending'' []"
      and ?d3.0 = "settlement ''completed'' [(''transfer_id'', JStr ''tr_9'')]"
      and max_wait_seconds = 120 and py_str = "\<lambda>_. ''?''" and settlement_id = "''st_1''"]
  by (simp add: world_def reply_def settlement_def error_status_def dict_get_def)

text \<open>
  C3: a poll made before the deadline that returns a record with status
  \<^verbatim>\<open>failed\<close> makes \<open>wait_for_completion\<close> raise an error whose message is
  \<^verbatim>\<open>Settlement failed: \<close> followed by the text of that record's \<^verbatim>\<open>failure_reason\<close>
  (the reason itself when it is a string); nothing is returned. The polls before it are
  a prefix \<open>pre\<close> of records on which the loop goes on.
\<close>

theorem wait_for_completion_failed:
  assumes "replies s = pre @ (lat, Inr r) # rest" and "list_all nonterminal_reply pre"
      and "sum_list (map fst pre) + 2 * real (length pre) < real_of_int max_wait_seconds"
      and "\<not> error_status r" and "body r = Some (JObj d)"
      and "dict_get d ''status'' = Some (JStr ''failed'')"
  shows "fst (wait_for_completion py_str settlement_id max_wait_seconds s) =
           Inl (Exception (''Settlement failed: ''
                  @ py_format py_str (dict_get d ''failure_reason'')))"
proof -
  let ?s = "s\<lparr>clock := clock s + sum_list (map fst pre) + 2 * real (length pre),
                replies := (lat, Inr r) # rest,
                sent := sent s @ replicate (length pre) (status_request (self s) settlement_id),
                slept := slept s @ replicate (length pre) 2\<rparr>"
  have "wait_loop py_str settlement_id (clock s) max_wait_seconds s =
          wait_loop py_str settlement_id (clock s) max_wait_seconds ?s"
    by (rule wait_loop_skip [OF assms(2,1)]) (use assms(3) in simp)
  moreover have "fst (wait_loop py_str settlement_id (clock s) max_wait_seconds ?s) =
      Inl (Exception (''Settlement failed: ''
                  @ py_format py_str (dict_get d ''failure_reason'')))"
    by (subst wait_loop_step [OF _ _ assms(4,5,6)])
       (use assms(3) in \<open>simp_all add: time_time_def Let_def\<close>)
  ultimately show ?thesis by (simp add: wait_for_completion_def time_time_def)
qed

text \<open>A run of C3: one pending record, then a failed one with its reason.\<close>

theorem wait_for_completion_failed_witness:
  "fst (wait_for_completion (\<lambda>_. ''?'') ''st_1'' 120
         (world demo_client
            [reply (1/2) 200 (settlement ''pending'' []),
             reply (1/2) 200
               (settlement ''failed'' [(''failure_reason'', JStr ''insufficient_funds'')])]
          :: real state)) =
     Inl (Exception ''Settlement failed: insufficient_funds'')"
proof -
  have pre: "list_all nonterminal_reply
               [reply (1/2) 200 (settlement ''pending'' []) :: real \<times> (string + real response)]"
    by (simp add: nonterminal_reply_def reply_def settlement_def error_status_def dict_get_def)
  have "fst (wait_for_completion (\<lambda>_. ''?'') ''st_1'' 120
         (world demo_client
            [reply (1/2) 200 (settlement ''pending'' []),
             reply (1/2) 200
               (settlement ''failed'' [(''failure_reason'', JStr ''insufficient_funds'')])]
          :: real state)) =
     Inl (Exception (''Settlement failed: '' @ py_format (\<lambda>_. ''?'')
            (dict_get (settlement ''failed'' [(''failure_reason'', JStr ''insufficient_funds'')]
                         :: real dict) ''failure_reason'')))"
    by (rule wait_for_completion_failed
          [where lat = "1/2" and rest = "[]"
             and r = "\<lparr>status_code = 200,
                       body = Some (JObj (settlement ''failed''
                                [(''failure_reason'', JStr ''insufficient_funds'')]))\<rparr>",
           OF _ pre])
       (simp_all add: world_def reply_def settlement_def error_status_def dict_get_def)
  then show ?thesis by (simp add: settlement_def dict_get_def)
qed

subsection \<open>Recipient constructors\<close>

text \<open>
  C4, as stated, at an explicit input: a tax id that is supplied as the empty string is
  left out of the Pix recipient, although the claim promises the key for every supplied
  value.
\<close>

theorem create_pix_recipient_empty_tax_id:
  "dict_get (create_pix_recipient ''maria@email.com'' ''email'' ''Maria Silva'' (Some '''')
      :: real dict) ''tax_id'' = None
   \<and> dict_get (create_pix_recipient ''maria@email.com'' ''email'' ''Maria Silva'' (Some '''')
      :: real dict) ''tax_id'' \<noteq> Some (JStr '''')"
  by (simp add: create_pix_recipient_def dict_get_def)

text \<open>
  C4, amended: the optional field (tax id / rfc) is absent from the recipient when it is
  not supplied or supplied empty, and present with exactly the supplied value when it is
  supplied non-empty; the type tag, the key or account identifier and the name are the
  supplied arguments, and the object has no other key.
\<close>

theorem recipient_optional_field:
  "dict_get (create_pix_recipient pix_key pix_key_type name tax_id) ''tax_id'' =
     (case tax_id of None \<Rightarrow> None | Some t \<Rightarrow> if t = [] then None else Some (JStr t))
   \<and> dict_get (create_pix_recipient pix_key pix_key_type name tax_id) ''type'' = Some (JStr ''pix'')
   \<and> dict_get (create_pix_recipient pix_key pix_key_type name tax_id) ''pix_key'' = Some (JStr pix_key)
   \<and> dict_get (create_pix_recipient pix_key pix_key_type name tax_id) ''pix_key_type'' =
       Some (JStr pix_key_type)
   \<and> dict_get (create_pix_recipient pix_key pix_key_type name tax_id) ''name'' = Some (JStr name)
   \<and> map fst (create_pix_recipient pix_key pix_key_type name tax_id) =
       [''type'', ''pix_key'', ''pix_key_type'', ''name''] @ (if truthy tax_id then [''tax_id''] else [])
   \<and> dict_get (create_spei_recipient clabe name rfc) ''rfc'' =
       (case rfc of None \<Rightarrow> None | Some r \<Rightarrow> if r = [] then None else Some (JStr r))
   \<and> dict_get (create_spei_recipient clabe name rfc) ''type'' = Some (JStr ''spei'')
   \<and> dict_get (create_spei_recipient clabe name rfc) ''clabe'' = Some (JStr clabe)
   \<and> dict_get (create_spei_recipient clabe name rfc) ''name'' = Some (JStr name)
   \<and> map fst (create_spei_recipient clabe name rfc) =
       [''type'', ''clabe'', ''name''] @ (if truthy rfc then [''rfc''] else [])"
proof -
  have pix: "create_pix_recipient pix_key pix_key_type name tax_id =
      [(''type'', JStr ''pix''), (''pix_key'', JStr pix_key),
       (''pix_key_type'', JStr pix_key_type), (''name'', JStr name)]
      @ (if truthy tax_id then [(''tax_id'', JStr (the tax_id))] else [])"
    by (simp add: create_pix_recipient_def)
  have spei: "create_spei_recipient clabe name rfc =
      [(''type'', JStr ''spei''), (''clabe'', JStr clabe), (''name'', JStr name)]
      @ (if truthy rfc then [(''rfc'', JStr (the rfc))] else [])"
    by (simp add: create_spei_recipient_def)
  show ?thesis
    unfolding pix spei dict_get_def
    by (cases tax_id; cases rfc) simp_all
qed

subsection \<open>Request payloads\<close>

text \<open>
  C5, as stated, at an explicit input: an idempotency key supplied as the empty string is
  not in the payload of the request \<open>settle\<close> sends, which holds the token alone.
\<close>

theorem settle_empty_idempotency_key:
  "map json_arg (sent (snd (settle ''tok_1'' (Some '''') (world demo_client [] :: real state)))) =
     [Some [(''token'', JStr ''tok_1'')]]"
  by (simp add: settle_def Let_def checked_snd requests_post_def requests_request_sent
        world_def)

text \<open>
  C5, amended: \<open>settle\<close> sends one request, whose payload holds \<^verbatim>\<open>token\<close> with the
  supplied token; it holds \<^verbatim>\<open>idempotency_key\<close> with exactly the supplied value when a
  non-empty key is supplied, and no such key when the argument is omitted or empty.
\<close>

theorem settle_payload:
  "\<exists>payload.
     sent (snd (settle token idempotency_key s)) =
       sent s @ [\<lparr>verb = POST, url = base_url (self s) @ ''/v1/ucp/settle'',
                  req_headers = headers (self s), json_arg = Some payload\<rparr>]
     \<and> dict_get payload ''token'' = Some (JStr token)
     \<and> dict_get payload ''idempotency_key'' =
         (case idempotency_key of
            None \<Rightarrow> None
          | Some k \<Rightarrow> if k = [] then None else Some (JStr k))
     \<and> map fst payload =
         [''token''] @ (if truthy idempotency_key then [''idempotency_key''] else [])"
  by (cases idempotency_key)
     (simp_all add: settle_def Let_def checked_snd requests_post_def requests_request_sent
        dict_get_def)

text \<open>
  C6, as stated, at an explicit input: metadata supplied as the empty dict is not in
  the payload of the request \<open>acquire_token\<close> sends.
\<close>

theorem acquire_token_empty_metadata:
  "map json_arg
     (sent (snd (acquire_token ''spei'' 100 ''USD'' [(''type'', JStr ''spei'')] (Some [])
                   (world demo_client [] :: real state)))) =
     [Some [(''corridor'', JStr ''spei''), (''amount'', JNum 100), (''currency'', JStr ''USD''),
            (''recipient'', JObj [(''type'', JStr ''spei'')])]]"
  by (simp add: acquire_token_def Let_def checked_snd requests_post_def requests_request_sent
        world_def)

text \<open>
  C6, amended: \<open>acquire_token\<close> sends one request, whose payload holds the corridor, the
  amount, the currency and the recipient as they were passed; it holds \<^verbatim>\<open>metadata\<close>
  with exactly the supplied value when non-empty metadata is supplied, and no such key
  when the argument is omitted or is the empty dict.
\<close>

theorem acquire_token_payload:
  "\<exists>payload.
     sent (snd (acquire_token corridor amount currency recipient metadata s)) =
       sent s @ [\<lparr>verb = POST, url = base_url (self s) @ ''/v1/ucp/tokens'',
                  req_headers = headers (self s), json_arg = Some payload\<rparr>]
     \<and> dict_get payload ''metadata'' =
         (case metadata of
            None \<Rightarrow> None
          | Some m \<Rightarrow> if m = [] then None else Some (JObj m))
     \<and> dict_get payload ''corridor'' = Some (JStr corridor)
     \<and> dict_get payload ''amount'' = Some (JNum amount)
     \<and> dict_get payload ''currency'' = Some (JStr currency)
     \<and> dict_get payload ''recipient'' = Some (JObj recipient)
     \<and> map fst payload =
         [''corridor'', ''amount'', ''currency'', ''recipient'']
         @ (if truthy metadata then [''metadata''] else [])"
  by (cases metadata)
     (simp_all add: acquire_token_def Let_def checked_snd requests_post_def
        requests_request_sent dict_get_def)

subsection \<open>Errors of the remote side\<close>

text \<open>
  C7, as stated, at an explicit input: a response with status 304 is not a 2xx response,
  yet \<open>get_settlement_status\<close> raises nothing on it and returns its body.
\<close>

theorem get_settlement_status_not_modified:
  "fst (get_settlement_status ''st_1''
          (world demo_client [reply 0 304 (settlement ''pending'' [])] :: real state)) =
     Inr (JObj (settlement ''pending'' []))
   \<and> \<not> (200 \<le> status_code \<lparr>status_code = 304, body = Some (JObj (settlement ''pending'' []
            :: real dict))\<rparr>
        \<and> status_code \<lparr>status_code = 304, body = Some (JObj (settlement ''pending'' []
            :: real dict))\<rparr> < 300)"
  by (simp add: get_settlement_status_def requests_get_def requests_request_def world_def
        reply_def raise_for_status_def response_json_def)

text \<open>
  C7, amended: each of \<open>get_quote\<close>, \<open>acquire_token\<close>, \<open>settle\<close> and
  \<open>get_settlement_status\<close> sends exactly one request and takes exactly one reply. It
  raises HTTPError if and only if a response arrives whose status is from 400 to 599,
  and the error carries that response unchanged; on any other response it returns what
  \<open>response.json()\<close> gives for the body, unchanged; a transport failure is raised as it
  is. Nothing is swallowed and nothing is sent again.
\<close>

theorem operations_propagate_http_errors:
  assumes "replies s = (lat, out) # rest"
  shows "list_all (exchanged s out rest)
           [get_quote corridor amount currency,
            acquire_token corridor amount currency recipient metadata,
            settle token idempotency_key,
            get_settlement_status settlement_id]"
proof -
  have "exchanged s out rest (get_quote corridor amount currency)"
    by (rule exchangedI [OF assms])
       (simp_all add: get_quote_def requests_post_def checked_fst checked_snd)
  moreover have "exchanged s out rest (acquire_token corridor amount currency recipient metadata)"
    by (rule exchangedI [OF assms])
       (simp_all add: acquire_token_def requests_post_def checked_fst checked_snd Let_def)
  moreover have "exchanged s out rest (settle token idempotency_key)"
    by (rule exchangedI [OF assms])
       (simp_all add: settle_def requests_post_def checked_fst checked_snd Let_def)
  moreover have "exchanged s out rest (get_settlement_status settlement_id)"
    by (rule exchangedI [OF assms])
       (simp_all add: get_settlement_status_def requests_get_def checked_fst checked_snd)
  ultimately show ?thesis by simp
qed

text \<open>A run of C7: a 500 response to \<open>settle\<close> comes out as HTTPError with that response.\<close>

theorem operations_propagate_http_errors_witness:
  "fst (settle ''tok_1'' None
          (world demo_client [reply 0 500 [(''error'', JStr ''boom'')]] :: real state)) =
     Inl (HTTPError \<lparr>status_code = 500, body = Some (JObj [(''error'', JStr ''boom'')])\<rparr>)
   \<and> length (sent (snd (settle ''tok_1'' None
          (world demo_client [reply 0 500 [(''error'', JStr ''boom'')]] :: real state)))) = 1"
  using operations_propagate_http_errors
    [where s = "world demo_client [reply 0 500 [(''error'', JStr ''boom'')]] :: real state"
       and lat = 0 and rest = "[]"
       and out = "Inr \<lparr>status_code = 500, body = Some (JObj [(''error'', JStr ''boom'')])\<rparr>"
       and token = "''tok_1''" and idempotency_key = None]
  by (simp add: exchanged_def world_def reply_def error_status_def)

subsection \<open>The client's configuration\<close>

text \<open>
  C8: no operation writes the client's configuration: \<open>api_key\<close>, \<open>base_url\<close> and
  \<open>headers\<close> (the fields of \<open>self\<close>) are after \<open>get_quote\<close>, \<open>acquire_token\<close>,
  \<open>settle\<close>, \<open>get_settlement_status\<close> and \<open>wait_for_completion\<close> what they were before.
\<close>

theorem client_configuration_unchanged:
  "self (snd (get_quote corridor amount currency s)) = self s
   \<and> self (snd (acquire_token corridor amount currency recipient metadata s)) = self s
   \<and> self (snd (settle token idempotency_key s)) = self s
   \<and> self (snd (get_settlement_status settlement_id s)) = self s
   \<and> self (snd (wait_for_completion py_str settlement_id max_wait_seconds s)) = self s"
  by (simp add: get_quote_def acquire_token_def settle_def get_settlement_status_self
        wait_for_completion_def wait_loop_self checked_snd requests_post_def
        requests_request_self Let_def)

subsection \<open>The deadline and the statuses that end the loop\<close>

text \<open>
  C9: with \<open>max_wait_seconds\<close> at most 0, \<open>wait_for_completion\<close> raises the timeout
  error at once: the state is untouched, so no request was sent and no reply taken.
\<close>

theorem wait_for_completion_nonpositive_deadline:
  "max_wait_seconds \<le> 0 \<Longrightarrow>
     wait_for_completion py_str settlement_id max_wait_seconds s =
       (Inl (Exception ''Settlement timed out''), s)"
  by (simp add: wait_for_completion_def wait_loop_deadline)

text \<open>A run of C9: a completed record is ready, and with no time to wait it is not asked for.\<close>

theorem wait_for_completion_nonpositive_deadline_witness:
  "wait_for_completion (\<lambda>_. ''?'') ''st_1'' 0
     (world demo_client [reply 0 200 (settlement ''completed'' [])] :: real state) =
   (Inl (Exception ''Settlement timed out''),
    world demo_client [reply 0 200 (settlement ''completed'' [])])
   \<and> sent (snd (wait_for_completion (\<lambda>_. ''?'') ''st_1'' (- 5)
        (world demo_client [reply 0 200 (settlement ''completed'' [])] :: real state))) = []"
proof -
  have z: "(0::int) \<le> 0" and m: "(- 5::int) \<le> 0" by simp_all
  show ?thesis
    using
      wait_for_completion_nonpositive_deadline
        [OF z, where py_str = "\<lambda>_. ''?''" and settlement_id = "''st_1''"
           and s = "world demo_client [reply 0 200 (settlement ''completed'' [])] :: real state"]
      wait_for_completion_nonpositive_deadline
        [OF m, where py_str = "\<lambda>_. ''?''" and settlement_id = "''st_1''"
           and s = "world demo_client [reply 0 200 (settlement ''completed'' [])] :: real state"]
    by (simp add: world_def)
qed

text \<open>
  C10: a polled record ends the loop only when its status is exactly the string
  \<^verbatim>\<open>completed\<close> (the record is returned) or exactly the string \<^verbatim>\<open>failed\<close> (the
  failure is raised); on any other status value the loop sleeps two seconds and polls
  again, and a run of such records that lasts to the deadline ends in the timeout error.
\<close>

theorem wait_loop_stops_only_on_terminal_status:
  "(time_time s - start_time < real_of_int max_wait_seconds
      \<and> replies s = (lat, Inr r) # rest \<and> \<not> error_status r
      \<and> body r = Some (JObj d) \<and> dict_get d ''status'' = Some v
    \<longrightarrow> wait_loop py_str settlement_id start_time max_wait_seconds s =
          (let s' = s\<lparr>clock := clock s + lat, replies := rest,
                       sent := sent s @ [status_request (self s) settlement_id]\<rparr>
           in if v = JStr ''completed'' then (Inr (JObj d), s')
              else if v = JStr ''failed'' then
                (Inl (Exception (''Settlement failed: ''
                        @ py_format py_str (dict_get d ''failure_reason''))), s')
              else wait_loop py_str settlement_id start_time max_wait_seconds (time_sleep 2 s')))
   \<and> (list_all nonterminal_reply pre \<and> replies s = pre @ tail
        \<and> real_of_int max_wait_seconds \<le> clock s - start_time + 2 * real (length pre)
      \<longrightarrow> fst (wait_loop py_str settlement_id start_time max_wait_seconds s) =
            Inl (Exception ''Settlement timed out''))"
  using wait_loop_step [of s start_time max_wait_seconds lat r rest d v py_str settlement_id]
    wait_loop_times_out [of pre s tail max_wait_seconds start_time py_str settlement_id]
  by blast

text \<open>
  A run of C10: a status outside the enumerated set and a status that is not a string.
  The first poll leads to a sleep and a second poll, and the run ends in the timeout.
\<close>

theorem wait_loop_stops_only_on_terminal_status_witness:
  "wait_loop (\<lambda>_. ''?'') ''st_1'' 0 4
     (world demo_client
        [reply 1 200 (settlement ''processing'' []), reply 1 200 [(''status'', JNum 7)]]
      :: real state) =
   wait_loop (\<lambda>_. ''?'') ''st_1'' 0 4
     (time_sleep 2
        \<lparr>self = demo_client, clock = 1, replies = [reply 1 200 [(''status'', JNum 7)]],
         sent = [status_request demo_client ''st_1''], slept = []\<rparr>)
   \<and> fst (wait_loop (\<lambda>_. ''?'') ''st_1'' 0 4
       (world demo_client
          [reply 1 200 (settlement ''processing'' []), reply 1 200 [(''status'', JNum 7)]]
        :: real state)) =
     Inl (Exception ''Settlement timed out'')"
proof -
  let ?s = "world demo_client
        [reply 1 200 (settlement ''processing'' []), reply 1 200 [(''status'', JNum 7)]]
      :: real state"
  note run = wait_loop_stops_only_on_terminal_status
    [where s = ?s and start_time = 0 and max_wait_seconds = 4 and lat = 1
       and r = "\<lparr>status_code = 200, body = Some (JObj (settlement ''processing'' []))\<rparr>"
       and rest = "[reply 1 200 [(''status'', JNum 7)]]"
       and d = "settlement ''processing'' []" and v = "JStr ''processing''"
       and py_str = "\<lambda>_. ''?''" and settlement_id = "''st_1''"
       and pre = "[reply 1 200 (settlement ''processing'' []), reply 1 200 [(''status'', JNum 7)]]"
       and tail = "[]"]
  have poll: "time_time ?s - 0 < real_of_int 4
      \<and> replies ?s = (1, Inr \<lparr>status_code = 200,
                               body = Some (JObj (settlement ''processing'' []))\<rparr>)
                     # [reply 1 200 [(''status'', JNum 7)]]
      \<and> \<not> error_status \<lparr>status_code = 200,
                          body = Some (JObj (settlement ''processing'' [] :: real dict))\<rparr>
      \<and> body \<lparr>status_code = 200, body = Some (JObj (settlement ''processing'' [] :: real dict))\<rparr>
          = Some (JObj (settlement ''processing'' []))
      \<and> dict_get (settlement ''processing'' [] :: real dict) ''status'' = Some (JStr ''processing'')"
    by (simp add: world_def reply_def settlement_def error_status_def dict_get_def time_time_def)
  have all: "list_all nonterminal_reply
        [reply 1 200 (settlement ''processing'' []),
         reply 1 200 [(''status'', JNum 7)] :: real \<times> (string + real response)]
      \<and> replies ?s = [reply 1 200 (settlement ''processing'' []),
                       reply 1 200 [(''status'', JNum 7)]] @ []
      \<and> real_of_int 4 \<le> clock ?s - 0
            + 2 * real (length [reply 1 200 (settlement ''processing'' []),
                                reply 1 200 [(''status'', JNum 7)]
                                :: real \<times> (string + real response)])"
    by (simp add: world_def reply_def settlement_def error_status_def dict_get_def
          nonterminal_reply_def)
  from mp [OF conjunct1 [OF run] poll]
  have first: "wait_loop (\<lambda>_. ''?'') ''st_1'' 0 4 ?s =
      wait_loop (\<lambda>_. ''?'') ''st_1'' 0 4
        (time_sleep 2
           \<lparr>self = demo_client, clock = 1, replies = [reply 1 200 [(''status'', JNum 7)]],
            sent = [status_request demo_client ''st_1''], slept = []\<rparr>)"
    by (simp add: Let_def world_def)
  have "fst (wait_loop (\<lambda>_. ''?'') ''st_1'' 0 4 ?s) =
      Inl (Exception ''Settlement timed out'')"
    by (rule mp [OF conjunct2 [OF run] all])
  with first show ?thesis by simp
qed

end
